theory Spec2Isabelle
  imports Main
begin

section \<open>Data model\<close>

text \<open>
  The tables of the migrations and the client-side state of the React pages.
  A uuid is an opaque identifier; a timestamp is an instant in seconds.
\<close>

type_synonym uuid = nat
type_synonym timestamp = int

text \<open>\<^verbatim>\<open>CREATE TYPE public.app_role AS ENUM ('super_admin', 'admin', 'editor', 'reader')\<close>\<close>

datatype app_role = super_admin | admin | editor | reader

text \<open>\<^verbatim>\<open>CREATE TYPE public.folder_access_level AS ENUM ('private', 'team', 'custom')\<close>\<close>

datatype folder_access_level = private_level | team | custom

text \<open>Table \<^verbatim>\<open>user_roles\<close>: \<^verbatim>\<open>user_id\<close>, \<^verbatim>\<open>role\<close>.\<close>

record user_role =
  ur_user_id :: uuid
  ur_role :: app_role

text \<open>Table \<^verbatim>\<open>profiles\<close>: \<^verbatim>\<open>id\<close>, \<^verbatim>\<open>email\<close> (nullable), \<^verbatim>\<open>is_active\<close>.\<close>

record profile =
  p_id :: uuid
  p_email :: "string option"
  is_active :: bool

text \<open>Table \<^verbatim>\<open>invitations\<close>.\<close>

record invitation =
  inv_id :: uuid
  inv_email :: string
  inv_role :: app_role
  inv_token :: string
  invited_by :: "uuid option"
  accepted_at :: "timestamp option"
  expires_at :: timestamp
  inv_created_at :: timestamp

text \<open>
  Table \<^verbatim>\<open>folders\<close>. The table is created by a migration that is not among the
  sources; the columns are those the policies and \<^verbatim>\<open>handleCreateFolder\<close> use:
  \<^verbatim>\<open>id\<close>, the owner \<^verbatim>\<open>user_id\<close> (always written with the signed-in user's id),
  \<^verbatim>\<open>access_level\<close> and the nullable \<^verbatim>\<open>created_by\<close>.
\<close>

record folder =
  f_id :: uuid
  f_user_id :: uuid
  access_level :: folder_access_level
  created_by :: "uuid option"

text \<open>Table \<^verbatim>\<open>folder_permissions\<close>: one row per (folder, user) grant.\<close>

record folder_permission =
  fp_folder_id :: uuid
  fp_user_id :: uuid

text \<open>Table \<^verbatim>\<open>documents\<close>: \<^verbatim>\<open>id\<close> and the nullable \<^verbatim>\<open>folder_id\<close>.\<close>

record document =
  d_id :: uuid
  d_folder_id :: "uuid option"

record database =
  profiles :: "profile list"
  user_roles :: "user_role list"
  invitations :: "invitation list"
  folders :: "folder list"
  folder_permissions :: "folder_permission list"
  documents :: "document list"

text \<open>
  \<^verbatim>\<open>.maybeSingle()\<close> of the client library: the row when exactly one row matches,
  no data when none matches, and an error with no data when several match. Every
  caller in the sources treats the error as no data.
\<close>

fun maybeSingle :: "'a list \<Rightarrow> 'a option" where
  "maybeSingle [x] = Some x"
| "maybeSingle _ = None"

section \<open>Role functions of the database\<close>

text \<open>
  \<^verbatim>\<open>has_role(_user_id, _role)\<close>:
  \<^verbatim>\<open>SELECT EXISTS (SELECT 1 FROM public.user_roles WHERE user_id = _user_id AND role = _role)\<close>
\<close>

definition has_role :: "database \<Rightarrow> uuid \<Rightarrow> app_role \<Rightarrow> bool" where
  "has_role db uid r = list_ex (\<lambda>ur. ur_user_id ur = uid \<and> ur_role ur = r) (user_roles db)"

text \<open>\<^verbatim>\<open>has_role_or_higher(_user_id, _min_role)\<close>, the CASE of the later migration.\<close>

fun role_at_least :: "app_role \<Rightarrow> app_role \<Rightarrow> bool" where
  "role_at_least reader r = (r = reader \<or> r = editor \<or> r = admin \<or> r = super_admin)"
| "role_at_least editor r = (r = editor \<or> r = admin \<or> r = super_admin)"
| "role_at_least admin r = (r = admin \<or> r = super_admin)"
| "role_at_least super_admin r = (r = super_admin)"

definition has_role_or_higher :: "database \<Rightarrow> uuid \<Rightarrow> app_role \<Rightarrow> bool" where
  "has_role_or_higher db uid min_role =
     list_ex (\<lambda>ur. ur_user_id ur = uid \<and> role_at_least min_role (ur_role ur)) (user_roles db)"

text \<open>The first version of \<^verbatim>\<open>has_role_or_higher\<close>, from the migration that creates the tables.\<close>

definition has_role_or_higher_v1 :: "database \<Rightarrow> uuid \<Rightarrow> app_role \<Rightarrow> bool" where
  "has_role_or_higher_v1 db uid min_role =
     list_ex (\<lambda>ur. ur_user_id ur = uid \<and>
        (ur_role ur = super_admin
         \<or> (min_role = admin \<and> (ur_role ur = super_admin \<or> ur_role ur = admin))
         \<or> (min_role = editor \<and> (ur_role ur = super_admin \<or> ur_role ur = admin \<or> ur_role ur = editor))
         \<or> min_role = reader))
       (user_roles db)"

section \<open>Capability resolver (PermissionsProvider)\<close>

text \<open>\<^verbatim>\<open>const roleHierarchy = { super_admin: 4, admin: 3, editor: 2, reader: 1 }\<close>\<close>

fun roleHierarchy :: "app_role \<Rightarrow> nat" where
  "roleHierarchy super_admin = 4"
| "roleHierarchy admin = 3"
| "roleHierarchy editor = 2"
| "roleHierarchy reader = 1"

text \<open>
  \<^verbatim>\<open>hasRole(minRole)\<close> of the provider, with the provider's \<^verbatim>\<open>role\<close> state as first
  argument: \<^verbatim>\<open>if (!role || !minRole) return false; return roleHierarchy[role] >= roleHierarchy[minRole]\<close>
\<close>

fun hasRole :: "app_role option \<Rightarrow> app_role option \<Rightarrow> bool" where
  "hasRole None _ = False"
| "hasRole _ None = False"
| "hasRole (Some role) (Some minRole) = (roleHierarchy role \<ge> roleHierarchy minRole)"

text \<open>Row-level security of \<^verbatim>\<open>user_roles\<close> for SELECT: the three permissive policies, OR-ed.\<close>

definition user_roles_select_policy :: "database \<Rightarrow> uuid \<Rightarrow> user_role \<Rightarrow> bool" where
  "user_roles_select_policy db auth_uid ur =
     (has_role db auth_uid super_admin
      \<or> auth_uid = ur_user_id ur
      \<or> has_role db auth_uid admin)"

text \<open>
  \<^verbatim>\<open>fetchRole\<close>: no signed-in user gives no role; otherwise the role of the single
  \<^verbatim>\<open>user_roles\<close> row of the user; a failed lookup degrades to no role.
\<close>

definition fetchRole :: "database \<Rightarrow> uuid option \<Rightarrow> app_role option" where
  "fetchRole db user =
     (case user of
        None \<Rightarrow> None
      | Some uid \<Rightarrow>
          map_option ur_role
            (maybeSingle (filter (\<lambda>ur. ur_user_id ur = uid)
               (filter (user_roles_select_policy db uid) (user_roles db)))))"

record PermissionsContextType =
  role :: "app_role option"
  canManageUsers :: bool
  canViewUsers :: bool
  canCreateFolders :: bool
  canDeleteFolders :: bool
  canRenameFolders :: bool
  canUploadDocuments :: bool
  canDeleteDocuments :: bool
  canRenameDocuments :: bool
  canUseChat :: bool
  canExportConversations :: bool
  canViewAllConversations :: bool
  canAccessSettings :: bool
  canManageBilling :: bool

text \<open>The \<^verbatim>\<open>value\<close> object the provider builds from its \<^verbatim>\<open>role\<close> state.\<close>

definition PermissionsProvider :: "app_role option \<Rightarrow> PermissionsContextType" where
  "PermissionsProvider r =
     \<lparr> role = r,
       canManageUsers = (r = Some super_admin),
       canViewUsers = (r = Some super_admin \<or> r = Some admin),
       canCreateFolders = hasRole r (Some editor),
       canDeleteFolders = hasRole r (Some admin),
       canRenameFolders = hasRole r (Some editor),
       canUploadDocuments = hasRole r (Some editor),
       canDeleteDocuments = hasRole r (Some admin),
       canRenameDocuments = hasRole r (Some editor),
       canUseChat = (r \<noteq> None),
       canExportConversations = hasRole r (Some editor),
       canViewAllConversations = hasRole r (Some admin),
       canAccessSettings = hasRole r (Some admin),
       canManageBilling = (r = Some super_admin) \<rparr>"

text \<open>The permissions a signed-in user sees: the provider's value at the fetched role.\<close>

definition usePermissions :: "database \<Rightarrow> uuid option \<Rightarrow> PermissionsContextType" where
  "usePermissions db user = PermissionsProvider (fetchRole db user)"

text \<open>\<^verbatim>\<open>const canManageAccess = hasRole('admin')\<close> of the Documents page.\<close>

definition canManageAccess :: "app_role option \<Rightarrow> bool" where
  "canManageAccess r = hasRole r (Some admin)"

section \<open>Expansion of policies\<close>

text \<open>
  Before a statement on a table runs, the database adds the table's policies to it,
  and does the same for every table a policy reads in a subquery. The tables with
  policies in the migrations:
\<close>

datatype relation =
    folders_table | folder_permissions_table | user_roles_table
  | invitations_table | profiles_table | documents_table

text \<open>
  The tables the policies of a table read in a subquery of their own. The policy
  "Users can view accessible folders" on \<^verbatim>\<open>folders\<close> reads
  \<^verbatim>\<open>folder_permissions\<close>; the FOR ALL policy "Folder creators can manage
  permissions" on \<^verbatim>\<open>folder_permissions\<close> reads \<^verbatim>\<open>folders\<close>. The other policies of
  the migrations call \<^verbatim>\<open>has_role\<close>, which is SECURITY DEFINER and reads
  \<^verbatim>\<open>user_roles\<close> outside row-level security. The policy on \<^verbatim>\<open>folders\<close> applies to
  every statement that reads a column of the table (SELECT, and UPDATE or DELETE
  with a WHERE clause); the FOR ALL policy applies to every statement on
  \<^verbatim>\<open>folder_permissions\<close>.
\<close>

fun policy_subqueries :: "relation \<Rightarrow> relation list" where
  "policy_subqueries folders_table = [folder_permissions_table]"
| "policy_subqueries folder_permissions_table = [folders_table]"
| "policy_subqueries user_roles_table = []"
| "policy_subqueries invitations_table = []"
| "policy_subqueries profiles_table = []"
| "policy_subqueries documents_table = []"

definition all_relations :: "relation list" where
  "all_relations = [folders_table, folder_permissions_table, user_roles_table,
                    invitations_table, profiles_table, documents_table]"

text \<open>
  The expansion keeps the list of the tables it is inside of; reaching one of them
  again ends the statement with the error 42P17, "infinite recursion detected in
  policy for relation". \<open>policy_recursion active r\<close> says that expanding the
  policies of \<open>r\<close> inside \<open>active\<close> meets that error.
\<close>

function policy_recursion :: "relation list \<Rightarrow> relation \<Rightarrow> bool" where
  "policy_recursion active r =
     (if r \<in> set active then True
      else list_ex (policy_recursion (r # active)) (policy_subqueries r))"
  by pat_completeness auto
termination
proof (relation "measure (\<lambda>(active, r). length (filter (\<lambda>x. x \<notin> set active) all_relations))")
  show "wf (measure (\<lambda>(active, r). length (filter (\<lambda>x. x \<notin> set active) all_relations)))"
    by simp
next
  fix active :: "relation list" and r x :: relation
  assume "r \<notin> set active"
  then have "r \<in> set (filter (\<lambda>x. x \<notin> set active) all_relations)"
    by (cases r) (simp_all add: all_relations_def)
  then have "length (filter (\<lambda>x. x \<noteq> r) (filter (\<lambda>x. x \<notin> set active) all_relations))
             < length (filter (\<lambda>x. x \<notin> set active) all_relations)"
    by (rule length_filter_less) simp
  moreover have "filter (\<lambda>x. x \<notin> set (r # active)) all_relations
                 = filter (\<lambda>x. x \<noteq> r) (filter (\<lambda>x. x \<notin> set active) all_relations)"
    by (auto intro: filter_cong)
  ultimately show "((r # active, x), (active, r))
      \<in> measure (\<lambda>(active, r). length (filter (\<lambda>x. x \<notin> set active) all_relations))"
    by simp
qed

declare policy_recursion.simps [simp del]

text \<open>The errors a statement can end with.\<close>

datatype db_error = InfiniteRecursion | RowLevelSecurity | UniqueViolation | ForeignKeyViolation

section \<open>Folder visibility\<close>

text \<open>
  \<^verbatim>\<open>EXISTS (SELECT 1 FROM public.folder_permissions fp
  WHERE fp.folder_id = _folder_id AND fp.user_id = _user_id)\<close>.
  The rows this subquery looks for are the user's own, which the policy
  "Users can view own folder permissions" always shows to that user.
\<close>

definition folder_permission_exists :: "database \<Rightarrow> uuid \<Rightarrow> uuid \<Rightarrow> bool" where
  "folder_permission_exists db folder_id uid =
     list_ex (\<lambda>fp. fp_folder_id fp = folder_id \<and> fp_user_id fp = uid) (folder_permissions db)"

text \<open>
  \<^verbatim>\<open>can_view_folder(_user_id, _folder_id, _folder_user_id, _access_level, _created_by)\<close>.
  A comparison with a NULL \<^verbatim>\<open>_created_by\<close> is not true, as in SQL.
\<close>

definition can_view_folder ::
  "database \<Rightarrow> uuid \<Rightarrow> uuid \<Rightarrow> uuid \<Rightarrow> folder_access_level \<Rightarrow> uuid option \<Rightarrow> bool" where
  "can_view_folder db uid folder_id folder_user_id lvl creator =
     (folder_user_id = uid
      \<or> has_role db uid super_admin
      \<or> lvl = team
      \<or> (lvl = private_level \<and> creator = Some uid)
      \<or> (lvl = custom \<and> folder_permission_exists db folder_id uid))"

text \<open>
  The policy "Users can view accessible folders" on \<^verbatim>\<open>folders\<close> FOR SELECT, as the
  three later migrations recreate it (with \<^verbatim>\<open>fp.folder_id = folders.id\<close>), for the
  row \<open>f\<close> and \<^verbatim>\<open>auth.uid() = auth_uid\<close>: the truth value of its USING expression
  on the row, given the contents of \<^verbatim>\<open>folder_permissions\<close>. Whether a statement gets
  as far as evaluating it is the matter of \<open>policy_recursion\<close>.
\<close>

definition users_can_view_accessible_folders :: "database \<Rightarrow> uuid \<Rightarrow> folder \<Rightarrow> bool" where
  "users_can_view_accessible_folders db auth_uid f =
     (f_user_id f = auth_uid
      \<or> has_role db auth_uid super_admin
      \<or> access_level f = team
      \<or> (access_level f = private_level \<and> created_by f = Some auth_uid)
      \<or> (access_level f = custom \<and>
          list_ex (\<lambda>fp. fp_folder_id fp = f_id f \<and> fp_user_id fp = auth_uid)
            (folder_permissions db)))"

text \<open>
  \<^verbatim>\<open>.from('folders').select('*')\<close> as user \<open>auth_uid\<close>: the error of the expansion,
  or else the rows the policy admits.
\<close>

definition select_folders :: "database \<Rightarrow> uuid \<Rightarrow> db_error + folder list" where
  "select_folders db auth_uid =
     (if policy_recursion [] folders_table then Inl InfiniteRecursion
      else Inr (filter (users_can_view_accessible_folders db auth_uid) (folders db)))"

section \<open>Policies of folder_permissions\<close>

text \<open>
  "Folder creators can manage permissions":
  \<^verbatim>\<open>EXISTS (SELECT 1 FROM public.folders f WHERE f.id = folder_id AND f.created_by = auth.uid())\<close>:
  the truth value of the expression on the row, given the contents of \<^verbatim>\<open>folders\<close>.
\<close>

definition folder_creators_can_manage_permissions ::
  "database \<Rightarrow> uuid \<Rightarrow> folder_permission \<Rightarrow> bool" where
  "folder_creators_can_manage_permissions db auth_uid fp =
     list_ex (\<lambda>f. f_id f = fp_folder_id fp \<and> created_by f = Some auth_uid) (folders db)"

text \<open>The three FOR ALL policies of \<^verbatim>\<open>folder_permissions\<close>, OR-ed.\<close>

definition folder_permissions_all_policy ::
  "database \<Rightarrow> uuid \<Rightarrow> folder_permission \<Rightarrow> bool" where
  "folder_permissions_all_policy db auth_uid fp =
     (has_role db auth_uid super_admin
      \<or> has_role db auth_uid admin
      \<or> folder_creators_can_manage_permissions db auth_uid fp)"

text \<open>
  INSERT of one grant as user \<open>auth_uid\<close>: the policies are expanded, then the FOR
  ALL policies check the new row, (folder_id, user_id) is UNIQUE, and
  \<^verbatim>\<open>folder_id\<close> references \<^verbatim>\<open>folders(id)\<close>.
\<close>

definition insert_folder_permission ::
  "database \<Rightarrow> uuid \<Rightarrow> folder_permission \<Rightarrow> db_error + database" where
  "insert_folder_permission db auth_uid fp =
     (if policy_recursion [] folder_permissions_table then Inl InfiniteRecursion
      else if \<not> folder_permissions_all_policy db auth_uid fp then Inl RowLevelSecurity
      else if folder_permission_exists db (fp_folder_id fp) (fp_user_id fp) then Inl UniqueViolation
      else if \<not> list_ex (\<lambda>f. f_id f = fp_folder_id fp) (folders db) then Inl ForeignKeyViolation
      else Inr (db\<lparr>folder_permissions := folder_permissions db @ [fp]\<rparr>))"

text \<open>
  \<^verbatim>\<open>.from('folder_permissions').delete().eq('folder_id', folderId)\<close> as user
  \<open>auth_uid\<close>: the policies are expanded; then the rows of that folder the policies
  let the user delete go away and the others stay.
\<close>

definition delete_folder_permissions :: "database \<Rightarrow> uuid \<Rightarrow> uuid \<Rightarrow> db_error + database" where
  "delete_folder_permissions db auth_uid folder_id =
     (if policy_recursion [] folder_permissions_table then Inl InfiniteRecursion
      else Inr (db\<lparr>folder_permissions :=
          filter (\<lambda>fp. \<not> (fp_folder_id fp = folder_id \<and> folder_permissions_all_policy db auth_uid fp))
            (folder_permissions db)\<rparr>))"

section \<open>Folder deletion\<close>









section \<open>Invitations: policies\<close>

text \<open>
  SELECT on \<^verbatim>\<open>invitations\<close>: "Super admins can manage invitations" (FOR ALL) OR-ed
  with "Anyone can view invitation by token for accepting", whose USING clause is
  \<^verbatim>\<open>true\<close>. The requester may be signed out (\<^verbatim>\<open>auth.uid()\<close> is NULL).
\<close>

definition super_admins_can_manage_invitations :: "database \<Rightarrow> uuid option \<Rightarrow> invitation \<Rightarrow> bool" where
  "super_admins_can_manage_invitations db auth i =
     (case auth of None \<Rightarrow> False | Some uid \<Rightarrow> has_role db uid super_admin)"

definition anyone_can_view_invitation :: "database \<Rightarrow> uuid option \<Rightarrow> invitation \<Rightarrow> bool" where
  "anyone_can_view_invitation db auth i = True"

definition select_invitations :: "database \<Rightarrow> uuid option \<Rightarrow> invitation list" where
  "select_invitations db auth =
     filter (\<lambda>i. super_admins_can_manage_invitations db auth i \<or> anyone_can_view_invitation db auth i)
       (invitations db)"

text \<open>SELECT on \<^verbatim>\<open>profiles\<close>: "Users can view profiles based on role".\<close>

definition users_can_view_profiles_based_on_role :: "database \<Rightarrow> uuid \<Rightarrow> profile \<Rightarrow> bool" where
  "users_can_view_profiles_based_on_role db auth_uid p =
     (auth_uid = p_id p
      \<or> has_role db auth_uid super_admin
      \<or> has_role db auth_uid admin)"

text \<open>
  INSERT into \<^verbatim>\<open>invitations\<close> as a signed-in user: only the FOR ALL policy of super
  admins admits the new row; \<^verbatim>\<open>id\<close> is the primary key and \<^verbatim>\<open>token\<close> is UNIQUE.
\<close>

definition insert_invitation :: "database \<Rightarrow> uuid \<Rightarrow> invitation \<Rightarrow> db_error + database" where
  "insert_invitation db auth_uid i =
     (if \<not> super_admins_can_manage_invitations db (Some auth_uid) i then Inl RowLevelSecurity
      else if list_ex (\<lambda>j. inv_id j = inv_id i \<or> inv_token j = inv_token i) (invitations db)
        then Inl UniqueViolation
      else Inr (db\<lparr>invitations := invitations db @ [i]\<rparr>))"

text \<open>\<^verbatim>\<open>.from('invitations').delete().eq('id', id)\<close> as a signed-in user.\<close>

definition delete_invitation :: "database \<Rightarrow> uuid \<Rightarrow> uuid \<Rightarrow> database" where
  "delete_invitation db auth_uid invitation_id =
     db\<lparr>invitations :=
          filter (\<lambda>i. \<not> (inv_id i = invitation_id
                          \<and> super_admins_can_manage_invitations db (Some auth_uid) i))
            (invitations db)\<rparr>"

section \<open>Invitations: creation (InviteUserDialog)\<close>

text \<open>
  \<^verbatim>\<open>inviteSchema\<close>: the email passes the library's format check (taken as the
  parameter \<open>is_email\<close>) and has at most 255 characters; the role is one of
  \<^verbatim>\<open>['admin', 'editor', 'reader']\<close>. The dialog keeps the role as a string.
\<close>

fun invite_role :: "string \<Rightarrow> app_role option" where
  "invite_role s =
     (if s = ''admin'' then Some admin
      else if s = ''editor'' then Some editor
      else if s = ''reader'' then Some reader
      else None)"

definition inviteSchema :: "(string \<Rightarrow> bool) \<Rightarrow> string \<Rightarrow> string \<Rightarrow> (string \<times> app_role) option" where
  "inviteSchema is_email email_in role_in =
     (if \<not> (is_email email_in \<and> length email_in \<le> 255) then None
      else map_option (\<lambda>r. (email_in, r)) (invite_role role_in))"

datatype invite_outcome =
    InviteValidationError
  | EmailAlreadyRegistered
  | InvitationAlreadyPending
  | InviteInsertError db_error
  | InvitationCreated string

text \<open>\<^verbatim>\<open>interval '7 days'\<close> in seconds.\<close>

definition seven_days :: timestamp where
  "seven_days = 7 * 24 * 60 * 60"

text \<open>
  \<^verbatim>\<open>handleSubmit\<close> of the dialog, for the signed-in user \<open>auth_uid\<close> at time \<open>now\<close>.
  \<open>new_id\<close> and \<open>new_token\<close> are the values the column defaults draw
  (\<^verbatim>\<open>gen_random_uuid()\<close>, \<^verbatim>\<open>encode(gen_random_bytes(32), 'hex')\<close>).
\<close>

definition handleSubmit_invite ::
  "(string \<Rightarrow> bool) \<Rightarrow> database \<Rightarrow> uuid \<Rightarrow> timestamp \<Rightarrow> uuid \<Rightarrow> string \<Rightarrow> string \<Rightarrow> string
     \<Rightarrow> invite_outcome \<times> database" where
  "handleSubmit_invite is_email db auth_uid now new_id new_token email_in role_in =
     (case inviteSchema is_email email_in role_in of
        None \<Rightarrow> (InviteValidationError, db)
      | Some (email, r) \<Rightarrow>
          (case maybeSingle (filter (\<lambda>p. p_email p = Some email)
                  (filter (users_can_view_profiles_based_on_role db auth_uid) (profiles db))) of
             Some existingProfile \<Rightarrow> (EmailAlreadyRegistered, db)
           | None \<Rightarrow>
               (case maybeSingle (filter (\<lambda>i. inv_email i = email \<and> accepted_at i = None)
                       (select_invitations db (Some auth_uid))) of
                  Some existingInvite \<Rightarrow> (InvitationAlreadyPending, db)
                | None \<Rightarrow>
                    (case insert_invitation db auth_uid
                            \<lparr> inv_id = new_id, inv_email = email, inv_role = r,
                              inv_token = new_token, invited_by = Some auth_uid,
                              accepted_at = None, expires_at = now + seven_days,
                              inv_created_at = now \<rparr> of
                       Inl insertError \<Rightarrow> (InviteInsertError insertError, db)
                     | Inr db' \<Rightarrow> (InvitationCreated new_token, db')))))"

text \<open>\<^verbatim>\<open>handleDeleteInvitation(id)\<close> of the Team page.\<close>

definition handleDeleteInvitation :: "database \<Rightarrow> uuid \<Rightarrow> uuid \<Rightarrow> database" where
  "handleDeleteInvitation db auth_uid invitation_id = delete_invitation db auth_uid invitation_id"

section \<open>Invitations: acceptance (AcceptInvite)\<close>

datatype fetch_error = InvitationNotFound | InvitationAlreadyUsed | InvitationExpired

text \<open>
  \<^verbatim>\<open>fetchInvitation\<close>, run when the page is displayed, by a visitor who is not signed
  in: the result is the page's \<^verbatim>\<open>invitation\<close> state or its \<^verbatim>\<open>error\<close> state.
\<close>

definition fetchInvitation :: "database \<Rightarrow> string \<Rightarrow> timestamp \<Rightarrow> fetch_error + invitation" where
  "fetchInvitation db token now =
     (case maybeSingle (filter (\<lambda>i. inv_token i = token) (select_invitations db None)) of
        None \<Rightarrow> Inl InvitationNotFound
      | Some data \<Rightarrow>
          if accepted_at data \<noteq> None then Inl InvitationAlreadyUsed
          else if expires_at data < now then Inl InvitationExpired
          else Inr data)"

record signup_form =
  fullName :: string
  password :: string
  confirmPassword :: string

text \<open>\<^verbatim>\<open>signupSchema\<close>.\<close>

definition signupSchema :: "signup_form \<Rightarrow> bool" where
  "signupSchema form =
     (2 \<le> length (fullName form) \<and> length (fullName form) \<le> 100
      \<and> 8 \<le> length (password form)
      \<and> password form = confirmPassword form)"

text \<open>
  What the remote services answer during a submission: the user \<^verbatim>\<open>signUp\<close> returns
  (none on a sign-up error), whether the insert into \<^verbatim>\<open>user_roles\<close> is refused, and
  whether the update of the invitation reaches its row. Whether \<^verbatim>\<open>signUp\<close> opens a session
  for the new user is a setting outside the sources, so these answers are inputs.
\<close>

record submit_replies =
  signUp_user :: "uuid option"
  roleError :: bool
  stamp_applies :: bool

datatype accept_outcome =
    AcceptFormError
  | AcceptNoInvitation
  | AcceptSignUpError
  | AcceptRoleError
  | AccountCreated

text \<open>
  \<^verbatim>\<open>handleSubmit\<close> of the page: \<open>page_invitation\<close> is the page's \<^verbatim>\<open>invitation\<close>
  state, set by \<^verbatim>\<open>fetchInvitation\<close> when the page was displayed. The result of the last
  update is not inspected by the source. The account itself is created by
  \<^verbatim>\<open>signUp\<close> in the authentication service; of the tables here, the submission writes
  \<^verbatim>\<open>user_roles\<close> and \<^verbatim>\<open>invitations\<close>.
\<close>

definition handleSubmit_accept ::
  "invitation option \<Rightarrow> signup_form \<Rightarrow> submit_replies \<Rightarrow> timestamp \<Rightarrow> database
     \<Rightarrow> accept_outcome \<times> database" where
  "handleSubmit_accept page_invitation form replies now db =
     (if \<not> signupSchema form then (AcceptFormError, db)
      else case page_invitation of
        None \<Rightarrow> (AcceptNoInvitation, db)
      | Some invit \<Rightarrow>
          (case signUp_user replies of
             None \<Rightarrow> (AcceptSignUpError, db)
           | Some new_user \<Rightarrow>
               if roleError replies then (AcceptRoleError, db)
               else
                 let db1 = db\<lparr>user_roles := user_roles db @
                               [\<lparr> ur_user_id = new_user, ur_role = inv_role invit \<rparr>]\<rparr>;
                     db2 = (if stamp_applies replies
                            then db1\<lparr>invitations :=
                                   map (\<lambda>i. if inv_id i = inv_id invit
                                            then i\<lparr>accepted_at := Some now\<rparr> else i)
                                     (invitations db1)\<rparr>
                            else db1)
                 in (AccountCreated, db2)))"

text \<open>
  The states of the store the pages can produce from a store with no invitation:
  creating an invitation, deleting one, and submitting the acceptance form with the
  invitation some earlier display of the page fetched. Tables other than
  \<^verbatim>\<open>invitations\<close> may change in any way between these steps.
\<close>

inductive reachable :: "(string \<Rightarrow> bool) \<Rightarrow> database \<Rightarrow> bool" for is_email where
  init: "invitations db = [] \<Longrightarrow> reachable is_email db"
| other: "reachable is_email db \<Longrightarrow> invitations db' = invitations db \<Longrightarrow> reachable is_email db'"
| create: "reachable is_email db \<Longrightarrow>
     handleSubmit_invite is_email db auth_uid now new_id new_token email_in role_in = (out, db')
     \<Longrightarrow> reachable is_email db'"
| revoke: "reachable is_email db \<Longrightarrow> reachable is_email (handleDeleteInvitation db auth_uid invitation_id)"
| accept: "reachable is_email db0 \<Longrightarrow> reachable is_email db \<Longrightarrow>
     fetchInvitation db0 token t0 = Inr invit \<Longrightarrow>
     handleSubmit_accept (Some invit) form replies now db = (out, db')
     \<Longrightarrow> reachable is_email db'"

section \<open>Example stores\<close>

text \<open>
  A store with folders that predate the \<^verbatim>\<open>created_by\<close> column (it is NULL for
  them), a user 1 without a role record and a deactivated admin 2.
\<close>

definition legacy_store :: database where
  "legacy_store =
     \<lparr> profiles = [\<lparr> p_id = 1, p_email = Some ''a@example.com'', is_active = True \<rparr>,
                   \<lparr> p_id = 2, p_email = Some ''b@example.com'', is_active = False \<rparr>],
       user_roles = [\<lparr> ur_user_id = 2, ur_role = admin \<rparr>],
       invitations = [],
       folders = [\<lparr> f_id = 10, f_user_id = 2, access_level = private_level, created_by = None \<rparr>,
                  \<lparr> f_id = 11, f_user_id = 2, access_level = custom, created_by = None \<rparr>,
                  \<lparr> f_id = 12, f_user_id = 3, access_level = team, created_by = Some 3 \<rparr>],
       folder_permissions = [],
       documents = [] \<rparr>"

text \<open>
  A store with an editor 1 who created three folders, an admin 2, a super admin 3, a
  reader 4 who holds a grant on the custom folder 21, and three documents.
\<close>

definition team_store :: database where
  "team_store =
     \<lparr> profiles = [\<lparr> p_id = 1, p_email = Some ''a@example.com'', is_active = True \<rparr>,
                   \<lparr> p_id = 2, p_email = Some ''b@example.com'', is_active = True \<rparr>,
                   \<lparr> p_id = 3, p_email = Some ''s@example.com'', is_active = True \<rparr>,
                   \<lparr> p_id = 4, p_email = Some ''r@example.com'', is_active = True \<rparr>],
       user_roles = [\<lparr> ur_user_id = 1, ur_role = editor \<rparr>,
                     \<lparr> ur_user_id = 2, ur_role = admin \<rparr>,
                     \<lparr> ur_user_id = 3, ur_role = super_admin \<rparr>,
                     \<lparr> ur_user_id = 4, ur_role = reader \<rparr>],
       invitations = [],
       folders = [\<lparr> f_id = 20, f_user_id = 1, access_level = private_level, created_by = Some 1 \<rparr>,
                  \<lparr> f_id = 21, f_user_id = 1, access_level = custom, created_by = Some 1 \<rparr>,
                  \<lparr> f_id = 22, f_user_id = 1, access_level = team, created_by = Some 1 \<rparr>],
       folder_permissions = [\<lparr> fp_folder_id = 21, fp_user_id = 4 \<rparr>],
       documents = [\<lparr> d_id = 30, d_folder_id = Some 22 \<rparr>,
                    \<lparr> d_id = 31, d_folder_id = Some 20 \<rparr>,
                    \<lparr> d_id = 32, d_folder_id = None \<rparr>] \<rparr>"

text \<open>
  The invitation for bob: created at time 0 for the role editor, so it expires at
  seven days; and the same store with that one invitation.
\<close>

definition bob_invitation :: invitation where
  "bob_invitation =
     \<lparr> inv_id = 40, inv_email = ''bob@example.com'', inv_role = editor,
       inv_token = ''t0ken'', invited_by = Some 3, accepted_at = None,
       expires_at = seven_days, inv_created_at = 0 \<rparr>"

definition invite_store :: database where
  "invite_store = team_store\<lparr>invitations := [bob_invitation]\<rparr>"

definition bob_form :: signup_form where
  "bob_form = \<lparr> fullName = ''Bob'', password = ''12345678'', confirmPassword = ''12345678'' \<rparr>"

definition all_fine :: submit_replies where
  "all_fine = \<lparr> signUp_user = Some 5, roleError = False, stamp_applies = True \<rparr>"

section \<open>Role hierarchy and capabilities\<close>

lemma role_at_least_hierarchy:
  "role_at_least m r \<longleftrightarrow> roleHierarchy m \<le> roleHierarchy r"
  by (cases m; cases r) simp_all

lemma role_at_least_v1:
  "(r = super_admin
    \<or> (m = admin \<and> (r = super_admin \<or> r = admin))
    \<or> (m = editor \<and> (r = super_admin \<or> r = admin \<or> r = editor))
    \<or> m = reader) = role_at_least m r"
  by (cases m; cases r) simp_all

lemma has_role_or_higher_v1_eq:
  "has_role_or_higher_v1 db uid m = has_role_or_higher db uid m"
  by (simp add: has_role_or_higher_v1_def has_role_or_higher_def role_at_least_v1)

lemma has_role_or_higher_admin:
  "has_role_or_higher db u admin \<longleftrightarrow> has_role db u super_admin \<or> has_role db u admin"
  by (auto simp: has_role_or_higher_def has_role_def list_ex_iff)

lemma hasRole_mono:
  "roleHierarchy r1 \<le> roleHierarchy r2 \<Longrightarrow> hasRole (Some r1) m \<Longrightarrow> hasRole (Some r2) m"
  by (cases m) auto

lemma canManageAccess_roles:
  "canManageAccess r \<longleftrightarrow> r = Some admin \<or> r = Some super_admin"
proof (cases r)
  case None
  then show ?thesis by (simp add: canManageAccess_def)
next
  case (Some a)
  then show ?thesis by (cases a) (simp_all add: canManageAccess_def)
qed

lemma fetchRole_own:
  "fetchRole db (Some u) =
     map_option ur_role (maybeSingle (filter (\<lambda>ur. ur_user_id ur = u) (user_roles db)))"
proof -
  have "filter (\<lambda>ur. ur_user_id ur = u) (filter (user_roles_select_policy db u) (user_roles db))
        = filter (\<lambda>ur. ur_user_id ur = u) (user_roles db)"
    by (auto simp: user_roles_select_policy_def intro: filter_cong)
  then show ?thesis by (simp add: fetchRole_def)
qed

lemma fetchRole_no_record:
  assumes "\<not> list_ex (\<lambda>ur. ur_user_id ur = u) (user_roles db)"
  shows "fetchRole db (Some u) = None"
proof -
  have "filter (\<lambda>ur. ur_user_id ur = u) (user_roles db) = []"
    using assms by (auto simp: list_ex_iff filter_empty_conv)
  then show ?thesis by (simp add: fetchRole_own)
qed

text \<open>
  C5. For roles \<open>r1 < r2\<close> in the order reader < editor < admin < super_admin
  (the numbers of \<open>roleHierarchy\<close>), every capability the resolver grants at \<open>r1\<close> it
  grants at \<open>r2\<close>, for the eleven threshold capabilities; the two exact-match
  capabilities, manage users and manage billing, are false at every role value other
  than super_admin (no role included) and true at super_admin. The database function
  \<open>has_role_or_higher\<close> follows the same order.
\<close>

theorem C5_capabilities_monotone:
  assumes "roleHierarchy r1 < roleHierarchy r2"
  shows "(canViewUsers (PermissionsProvider (Some r1)) \<longrightarrow> canViewUsers (PermissionsProvider (Some r2)))
       \<and> (canCreateFolders (PermissionsProvider (Some r1)) \<longrightarrow> canCreateFolders (PermissionsProvider (Some r2)))
       \<and> (canDeleteFolders (PermissionsProvider (Some r1)) \<longrightarrow> canDeleteFolders (PermissionsProvider (Some r2)))
       \<and> (canRenameFolders (PermissionsProvider (Some r1)) \<longrightarrow> canRenameFolders (PermissionsProvider (Some r2)))
       \<and> (canUploadDocuments (PermissionsProvider (Some r1)) \<longrightarrow> canUploadDocuments (PermissionsProvider (Some r2)))
       \<and> (canDeleteDocuments (PermissionsProvider (Some r1)) \<longrightarrow> canDeleteDocuments (PermissionsProvider (Some r2)))
       \<and> (canRenameDocuments (PermissionsProvider (Some r1)) \<longrightarrow> canRenameDocuments (PermissionsProvider (Some r2)))
       \<and> (canUseChat (PermissionsProvider (Some r1)) \<longrightarrow> canUseChat (PermissionsProvider (Some r2)))
       \<and> (canExportConversations (PermissionsProvider (Some r1)) \<longrightarrow> canExportConversations (PermissionsProvider (Some r2)))
       \<and> (canViewAllConversations (PermissionsProvider (Some r1)) \<longrightarrow> canViewAllConversations (PermissionsProvider (Some r2)))
       \<and> (canAccessSettings (PermissionsProvider (Some r1)) \<longrightarrow> canAccessSettings (PermissionsProvider (Some r2)))
       \<and> (\<forall>r. r \<noteq> Some super_admin \<longrightarrow>
             \<not> canManageUsers (PermissionsProvider r) \<and> \<not> canManageBilling (PermissionsProvider r))
       \<and> canManageUsers (PermissionsProvider (Some super_admin))
       \<and> canManageBilling (PermissionsProvider (Some super_admin))
       \<and> (\<forall>m. role_at_least m r1 \<longrightarrow> role_at_least m r2)"
proof -
  have db: "\<forall>m. role_at_least m r1 \<longrightarrow> role_at_least m r2"
    using assms by (simp add: role_at_least_hierarchy)
  have exact: "\<forall>r. r \<noteq> Some super_admin \<longrightarrow>
             \<not> canManageUsers (PermissionsProvider r) \<and> \<not> canManageBilling (PermissionsProvider r)"
    by (simp add: PermissionsProvider_def)
  have caps: "(canViewUsers (PermissionsProvider (Some r1)) \<longrightarrow> canViewUsers (PermissionsProvider (Some r2)))
       \<and> (canCreateFolders (PermissionsProvider (Some r1)) \<longrightarrow> canCreateFolders (PermissionsProvider (Some r2)))
       \<and> (canDeleteFolders (PermissionsProvider (Some r1)) \<longrightarrow> canDeleteFolders (PermissionsProvider (Some r2)))
       \<and> (canRenameFolders (PermissionsProvider (Some r1)) \<longrightarrow> canRenameFolders (PermissionsProvider (Some r2)))
       \<and> (canUploadDocuments (PermissionsProvider (Some r1)) \<longrightarrow> canUploadDocuments (PermissionsProvider (Some r2)))
       \<and> (canDeleteDocuments (PermissionsProvider (Some r1)) \<longrightarrow> canDeleteDocuments (PermissionsProvider (Some r2)))
       \<and> (canRenameDocuments (PermissionsProvider (Some r1)) \<longrightarrow> canRenameDocuments (PermissionsProvider (Some r2)))
       \<and> (canUseChat (PermissionsProvider (Some r1)) \<longrightarrow> canUseChat (PermissionsProvider (Some r2)))
       \<and> (canExportConversations (PermissionsProvider (Some r1)) \<longrightarrow> canExportConversations (PermissionsProvider (Some r2)))
       \<and> (canViewAllConversations (PermissionsProvider (Some r1)) \<longrightarrow> canViewAllConversations (PermissionsProvider (Some r2)))
       \<and> (canAccessSettings (PermissionsProvider (Some r1)) \<longrightarrow> canAccessSettings (PermissionsProvider (Some r2)))
       \<and> canManageUsers (PermissionsProvider (Some super_admin))
       \<and> canManageBilling (PermissionsProvider (Some super_admin))"
    using assms by (cases r1; cases r2) (simp_all add: PermissionsProvider_def)
  show ?thesis
    using caps exact db by blast
qed

theorem C5_capabilities_monotone_witness:
  "roleHierarchy editor < roleHierarchy admin
   \<and> canCreateFolders (PermissionsProvider (Some editor))
   \<and> canCreateFolders (PermissionsProvider (Some admin))
   \<and> \<not> canManageUsers (PermissionsProvider (Some admin))
   \<and> \<not> canManageBilling (PermissionsProvider (Some editor))
   \<and> canManageUsers (PermissionsProvider (Some super_admin))"
proof -
  have h: "roleHierarchy editor < roleHierarchy admin" by simp
  have c: "canCreateFolders (PermissionsProvider (Some editor))"
    by (simp add: PermissionsProvider_def)
  show ?thesis
    using h c C5_capabilities_monotone [OF h] by simp
qed

section \<open>Users without a role record\<close>

text \<open>
  C1 (as amended). For a user with no row in \<open>user_roles\<close>, every capability of the
  resolver is false. Neither the resolver nor the folder policy reads \<open>is_active\<close>:
  replacing the \<open>profiles\<close> table changes neither the capabilities nor the
  visibility of a folder. Such a user sees a folder exactly when they are its owner
  (\<open>user_id\<close>), its level is team, they created it and it is private, or it is custom
  and they hold a grant on it.
\<close>

theorem C1_no_role_record:
  "(\<forall>ps. usePermissions (db\<lparr>profiles := ps\<rparr>) user = usePermissions db user)
   \<and> (\<forall>ps f. users_can_view_accessible_folders (db\<lparr>profiles := ps\<rparr>) u f
               = users_can_view_accessible_folders db u f)
   \<and> (\<not> list_ex (\<lambda>ur. ur_user_id ur = u) (user_roles db) \<longrightarrow>
         \<not> canManageUsers (usePermissions db (Some u))
       \<and> \<not> canViewUsers (usePermissions db (Some u))
       \<and> \<not> canCreateFolders (usePermissions db (Some u))
       \<and> \<not> canDeleteFolders (usePermissions db (Some u))
       \<and> \<not> canRenameFolders (usePermissions db (Some u))
       \<and> \<not> canUploadDocuments (usePermissions db (Some u))
       \<and> \<not> canDeleteDocuments (usePermissions db (Some u))
       \<and> \<not> canRenameDocuments (usePermissions db (Some u))
       \<and> \<not> canUseChat (usePermissions db (Some u))
       \<and> \<not> canExportConversations (usePermissions db (Some u))
       \<and> \<not> canViewAllConversations (usePermissions db (Some u))
       \<and> \<not> canAccessSettings (usePermissions db (Some u))
       \<and> \<not> canManageBilling (usePermissions db (Some u))
       \<and> (\<forall>f. users_can_view_accessible_folders db u f =
              (f_user_id f = u
               \<or> access_level f = team
               \<or> (access_level f = private_level \<and> created_by f = Some u)
               \<or> (access_level f = custom \<and> folder_permission_exists db (f_id f) u))))"
proof -
  have ind1: "usePermissions (db\<lparr>profiles := ps\<rparr>) user = usePermissions db user" for ps
    by (cases user)
      (simp_all add: usePermissions_def fetchRole_def user_roles_select_policy_def has_role_def)
  have ind2: "users_can_view_accessible_folders (db\<lparr>profiles := ps\<rparr>) u f
                 = users_can_view_accessible_folders db u f" for ps f
    by (simp add: users_can_view_accessible_folders_def has_role_def)
  have none: "\<not> canManageUsers (usePermissions db (Some u))
       \<and> \<not> canViewUsers (usePermissions db (Some u))
       \<and> \<not> canCreateFolders (usePermissions db (Some u))
       \<and> \<not> canDeleteFolders (usePermissions db (Some u))
       \<and> \<not> canRenameFolders (usePermissions db (Some u))
       \<and> \<not> canUploadDocuments (usePermissions db (Some u))
       \<and> \<not> canDeleteDocuments (usePermissions db (Some u))
       \<and> \<not> canRenameDocuments (usePermissions db (Some u))
       \<and> \<not> canUseChat (usePermissions db (Some u))
       \<and> \<not> canExportConversations (usePermissions db (Some u))
       \<and> \<not> canViewAllConversations (usePermissions db (Some u))
       \<and> \<not> canAccessSettings (usePermissions db (Some u))
       \<and> \<not> canManageBilling (usePermissions db (Some u))
       \<and> (\<forall>f. users_can_view_accessible_folders db u f =
              (f_user_id f = u
               \<or> access_level f = team
               \<or> (access_level f = private_level \<and> created_by f = Some u)
               \<or> (access_level f = custom \<and> folder_permission_exists db (f_id f) u)))"
    if a: "\<not> list_ex (\<lambda>ur. ur_user_id ur = u) (user_roles db)"
  proof -
    have r: "fetchRole db (Some u) = None"
      using a by (rule fetchRole_no_record)
    have nsa: "\<not> has_role db u super_admin"
      using a by (auto simp: has_role_def list_ex_iff)
    have caps: "usePermissions db (Some u) = PermissionsProvider None"
      by (simp add: usePermissions_def r)
    have vis: "users_can_view_accessible_folders db u f =
              (f_user_id f = u
               \<or> access_level f = team
               \<or> (access_level f = private_level \<and> created_by f = Some u)
               \<or> (access_level f = custom \<and> folder_permission_exists db (f_id f) u))" for f
      using nsa by (simp add: users_can_view_accessible_folders_def folder_permission_exists_def)
    show ?thesis
      by (simp add: caps PermissionsProvider_def vis)
  qed
  show ?thesis
    using ind1 ind2 none by blast
qed

text \<open>
  The claim as stated fails: user 1 has no role record and sees the team folder 12;
  user 2 is deactivated and still has the capabilities of an admin and sees folder 10.
\<close>

theorem C1_counterexample:
  "\<not> list_ex (\<lambda>ur. ur_user_id ur = 1) (user_roles legacy_store)
   \<and> users_can_view_accessible_folders legacy_store 1
        \<lparr> f_id = 12, f_user_id = 3, access_level = team, created_by = Some 3 \<rparr>
   \<and> list_ex (\<lambda>p. p_id p = 2 \<and> is_active p = False) (profiles legacy_store)
   \<and> canViewUsers (usePermissions legacy_store (Some 2))
   \<and> canUseChat (usePermissions legacy_store (Some 2))
   \<and> users_can_view_accessible_folders legacy_store 2
        \<lparr> f_id = 10, f_user_id = 2, access_level = private_level, created_by = None \<rparr>"
  by (simp add: legacy_store_def users_can_view_accessible_folders_def usePermissions_def
      fetchRole_def user_roles_select_policy_def has_role_def PermissionsProvider_def)

theorem C1_no_role_record_witness:
  "\<not> list_ex (\<lambda>ur. ur_user_id ur = 1) (user_roles legacy_store)
   \<and> \<not> canUseChat (usePermissions legacy_store (Some 1))
   \<and> \<not> users_can_view_accessible_folders legacy_store 1
        \<lparr> f_id = 10, f_user_id = 2, access_level = private_level, created_by = None \<rparr>
   \<and> usePermissions (legacy_store\<lparr>profiles := []\<rparr>) (Some 2) = usePermissions legacy_store (Some 2)"
proof -
  have h: "\<not> list_ex (\<lambda>ur. ur_user_id ur = 1) (user_roles legacy_store)"
    by (simp add: legacy_store_def)
  show ?thesis
    using h C1_no_role_record [of legacy_store "Some 2" 1] by simp
qed

section \<open>Visibility of private and custom folders\<close>

lemma can_view_folder_policy:
  "users_can_view_accessible_folders db u f =
     can_view_folder db u (f_id f) (f_user_id f) (access_level f) (created_by f)"
  by (simp add: users_can_view_accessible_folders_def can_view_folder_def
      folder_permission_exists_def)

text \<open>
  C2 (as amended). A private folder is visible to a user exactly when the user is
  its owner (\<open>user_id\<close>), its creator (\<open>created_by\<close>) or a super admin; this holds
  for the policy and for \<open>can_view_folder\<close>. So a user who is neither owner nor
  creator nor super admin, an admin for instance, does not see it.
\<close>

theorem C2_private_folder:
  assumes "access_level f = private_level"
  shows "(users_can_view_accessible_folders db u f
            \<longleftrightarrow> f_user_id f = u \<or> created_by f = Some u \<or> has_role db u super_admin)
       \<and> (can_view_folder db u (f_id f) (f_user_id f) (access_level f) (created_by f)
            \<longleftrightarrow> f_user_id f = u \<or> created_by f = Some u \<or> has_role db u super_admin)
       \<and> (has_role db u admin \<and> \<not> has_role db u super_admin
            \<and> f_user_id f \<noteq> u \<and> created_by f \<noteq> Some u
            \<longrightarrow> \<not> users_can_view_accessible_folders db u f)"
  using assms
  by (auto simp: users_can_view_accessible_folders_def can_view_folder_def)

text \<open>
  The claim as stated fails on a folder that predates \<open>created_by\<close>: its owner 2, an
  admin, sees the private folder 10 without being its creator or a super admin.
\<close>

theorem C2_counterexample:
  "access_level \<lparr> f_id = 10, f_user_id = 2, access_level = private_level, created_by = None \<rparr> = private_level
   \<and> users_can_view_accessible_folders legacy_store 2
        \<lparr> f_id = 10, f_user_id = 2, access_level = private_level, created_by = None \<rparr>
   \<and> created_by \<lparr> f_id = 10, f_user_id = 2, access_level = private_level, created_by = None \<rparr> \<noteq> Some 2
   \<and> has_role legacy_store 2 admin
   \<and> \<not> has_role legacy_store 2 super_admin"
  by (simp add: legacy_store_def users_can_view_accessible_folders_def has_role_def)

theorem C2_private_folder_witness:
  "access_level \<lparr> f_id = 20, f_user_id = 1, access_level = private_level, created_by = Some 1 \<rparr> = private_level
   \<and> \<not> users_can_view_accessible_folders team_store 2
        \<lparr> f_id = 20, f_user_id = 1, access_level = private_level, created_by = Some 1 \<rparr>
   \<and> users_can_view_accessible_folders team_store 3
        \<lparr> f_id = 20, f_user_id = 1, access_level = private_level, created_by = Some 1 \<rparr>
   \<and> users_can_view_accessible_folders team_store 1
        \<lparr> f_id = 20, f_user_id = 1, access_level = private_level, created_by = Some 1 \<rparr>"
proof -
  have h: "access_level \<lparr> f_id = 20, f_user_id = 1, access_level = private_level, created_by = Some 1 \<rparr>
             = private_level"
    by simp
  show ?thesis
    using C2_private_folder [OF h, of team_store 2] C2_private_folder [OF h, of team_store 3]
      C2_private_folder [OF h, of team_store 1]
    by (simp add: team_store_def has_role_def)
qed

text \<open>
  C3 (as amended). The users who see a custom folder are exactly its owner
  (\<open>user_id\<close>), the super admins and the users holding a grant on it. The creator
  (\<open>created_by\<close>) is among them only as one of these.
\<close>

theorem C3_custom_folder:
  assumes "access_level f = custom"
  shows "{u. users_can_view_accessible_folders db u f}
         = {f_user_id f} \<union> {u. has_role db u super_admin}
           \<union> fp_user_id ` {fp \<in> set (folder_permissions db). fp_folder_id fp = f_id f}"
  using assms
  by (auto simp: users_can_view_accessible_folders_def list_ex_iff image_iff)

text \<open>
  The claim as stated fails on a folder that predates \<open>created_by\<close>: its owner 2 sees
  the custom folder 11 and is not its creator, not a super admin, and holds no grant.
\<close>

theorem C3_counterexample:
  "access_level \<lparr> f_id = 11, f_user_id = 2, access_level = custom, created_by = None \<rparr> = custom
   \<and> users_can_view_accessible_folders legacy_store 2
        \<lparr> f_id = 11, f_user_id = 2, access_level = custom, created_by = None \<rparr>
   \<and> created_by \<lparr> f_id = 11, f_user_id = 2, access_level = custom, created_by = None \<rparr> \<noteq> Some 2
   \<and> \<not> has_role legacy_store 2 super_admin
   \<and> \<not> folder_permission_exists legacy_store 11 2"
  by (simp add: legacy_store_def users_can_view_accessible_folders_def has_role_def
      folder_permission_exists_def)

theorem C3_custom_folder_witness:
  "access_level \<lparr> f_id = 21, f_user_id = 1, access_level = custom, created_by = Some 1 \<rparr> = custom
   \<and> users_can_view_accessible_folders team_store 4
        \<lparr> f_id = 21, f_user_id = 1, access_level = custom, created_by = Some 1 \<rparr>
   \<and> \<not> users_can_view_accessible_folders team_store 2
        \<lparr> f_id = 21, f_user_id = 1, access_level = custom, created_by = Some 1 \<rparr>"
proof -
  let ?f = "\<lparr> f_id = 21, f_user_id = 1, access_level = custom, created_by = Some 1 \<rparr>"
  have h: "access_level ?f = custom" by simp
  have e: "{u. users_can_view_accessible_folders team_store u ?f} = {1, 3, 4}"
    unfolding C3_custom_folder [OF h, of team_store]
    by (auto simp: team_store_def has_role_def)
  have "4 \<in> {u. users_can_view_accessible_folders team_store u ?f}"
    and "2 \<notin> {u. users_can_view_accessible_folders team_store u ?f}"
    unfolding e by simp_all
  then show ?thesis by simp
qed

section \<open>Statements that meet the recursion error\<close>

lemma policy_recursion_folders: "policy_recursion [] folders_table"
  by (simp add: policy_recursion.simps)

lemma policy_recursion_folder_permissions: "policy_recursion [] folder_permissions_table"
  by (simp add: policy_recursion.simps)

lemma policy_recursion_others:
  "\<not> policy_recursion [] user_roles_table \<and> \<not> policy_recursion [] invitations_table
   \<and> \<not> policy_recursion [] profiles_table \<and> \<not> policy_recursion [] documents_table"
  by (simp add: policy_recursion.simps)

lemma select_folders_error: "select_folders db u = Inl InfiniteRecursion"
  by (simp add: select_folders_def policy_recursion_folders)



section \<open>Managing grants\<close>

lemma fetchRole_has_role:
  assumes "fetchRole db (Some u) = Some r"
  shows "has_role db u r"
proof -
  from assms obtain x where x: "maybeSingle (filter (\<lambda>ur. ur_user_id ur = u) (user_roles db)) = Some x"
    and r: "ur_role x = r"
    by (auto simp: fetchRole_own)
  from x have "filter (\<lambda>ur. ur_user_id ur = u) (user_roles db) = [x]"
    by (cases "filter (\<lambda>ur. ur_user_id ur = u) (user_roles db)" rule: maybeSingle.cases) simp_all
  then have "x \<in> set (filter (\<lambda>ur. ur_user_id ur = u) (user_roles db))" by simp
  then have "x \<in> set (user_roles db)" "ur_user_id x = u" by simp_all
  with r show ?thesis
    unfolding has_role_def list_ex_iff by blast
qed

lemma canManageAccess_fetchRole:
  assumes "canManageAccess (fetchRole db (Some u))"
  shows "has_role_or_higher db u admin"
proof -
  from assms have "fetchRole db (Some u) = Some admin \<or> fetchRole db (Some u) = Some super_admin"
    by (simp add: canManageAccess_roles)
  then have "has_role db u admin \<or> has_role db u super_admin"
    using fetchRole_has_role by blast
  then show ?thesis by (auto simp: has_role_or_higher_admin)
qed

text \<open>
  C4. For every user whose role is below admin, a grant-management operation is
  denied: the store ends an insert and a delete on \<open>folder_permissions\<close> with an
  error, and the Documents page does not offer access management to that user. The
  page offers it to the roles admin and super_admin only. The error is the one the
  expansion of the policies of \<open>folder_permissions\<close> meets, so the store ends these
  statements with it for every caller.
\<close>

theorem C4_grant_management:
  "(\<not> has_role_or_higher db u admin \<longrightarrow>
        insert_folder_permission db u fp = Inl InfiniteRecursion
      \<and> delete_folder_permissions db u fid = Inl InfiniteRecursion
      \<and> \<not> canManageAccess (fetchRole db (Some u)))
   \<and> (canManageAccess r \<longleftrightarrow> r = Some admin \<or> r = Some super_admin)
   \<and> insert_folder_permission db caller fp = Inl InfiniteRecursion
   \<and> delete_folder_permissions db caller fid = Inl InfiniteRecursion"
proof -
  have i: "insert_folder_permission db c fp = Inl InfiniteRecursion" for c
    by (simp add: insert_folder_permission_def policy_recursion_folder_permissions)
  have d: "delete_folder_permissions db c fid = Inl InfiniteRecursion" for c
    by (simp add: delete_folder_permissions_def policy_recursion_folder_permissions)
  have g: "\<not> canManageAccess (fetchRole db (Some u))" if "\<not> has_role_or_higher db u admin"
    using that canManageAccess_fetchRole by blast
  show ?thesis
    using i d g canManageAccess_roles by blast
qed

theorem C4_grant_management_witness:
  "\<not> has_role_or_higher team_store 4 admin
   \<and> fetchRole team_store (Some 4) = Some reader
   \<and> insert_folder_permission team_store 4 \<lparr> fp_folder_id = 21, fp_user_id = 2 \<rparr> = Inl InfiniteRecursion
   \<and> delete_folder_permissions team_store 4 21 = Inl InfiniteRecursion
   \<and> \<not> canManageAccess (fetchRole team_store (Some 4))
   \<and> canManageAccess (fetchRole team_store (Some 2))"
proof -
  have h: "\<not> has_role_or_higher team_store 4 admin"
    by (simp add: team_store_def has_role_or_higher_def)
  have r4: "fetchRole team_store (Some 4) = Some reader"
    by (simp add: fetchRole_own team_store_def)
  have r2: "fetchRole team_store (Some 2) = Some admin"
    by (simp add: fetchRole_own team_store_def)
  have a: "canManageAccess (fetchRole team_store (Some 2))"
    using C4_grant_management [of team_store 4 "\<lparr> fp_folder_id = 21, fp_user_id = 2 \<rparr>" 21 "Some admin" 4]
    by (simp add: r2)
  show ?thesis
    using h r4 a C4_grant_management [of team_store 4 "\<lparr> fp_folder_id = 21, fp_user_id = 2 \<rparr>" 21 None 4]
    by blast
qed

section \<open>Deleting a folder\<close>









section \<open>Reading invitations\<close>

text \<open>
  C10. Whoever the requester is, signed in or not, with or without a role, a SELECT on
  \<open>invitations\<close> returns every row of the table, whole: token, email and role
  included.
\<close>

theorem C10_invitations_readable:
  "select_invitations db requester = invitations db"
  by (simp add: select_invitations_def anyone_can_view_invitation_def)


theorem C10_invitations_readable_witness:
  "select_invitations invite_store None = [bob_invitation]
   \<and> select_invitations invite_store (Some 4) = [bob_invitation]"
  using C10_invitations_readable [of invite_store None]
    C10_invitations_readable [of invite_store "Some 4"]
  by (simp add: invite_store_def)

section \<open>Creating invitations\<close>

lemma select_invitations_all: "select_invitations db auth = invitations db"
  by (simp add: select_invitations_def anyone_can_view_invitation_def)

lemma maybeSingle_length_one: "length xs = 1 \<Longrightarrow> maybeSingle xs = Some (hd xs)"
  by (cases xs rule: maybeSingle.cases) simp_all

lemma profiles_visible_to_super_admin:
  assumes "has_role db u super_admin"
  shows "filter (users_can_view_profiles_based_on_role db u) (profiles db) = profiles db"
  using assms by (simp add: users_can_view_profiles_based_on_role_def)

text \<open>
  C7 (as amended). For a super admin and an input the schema accepts: creation fails
  with "email already registered" when exactly one profile, active or not, has the
  email; it fails with "invitation already pending" when no profile has the email and
  exactly one unaccepted invitation for it exists, whatever that invitation's expiry;
  and when no profile has the email, no unaccepted invitation for it exists and the
  drawn id and token are fresh, the invitation is stored with the schema's role and
  an expiry seven days after creation.
\<close>

theorem C7_create_conflicts:
  assumes sa: "has_role db u super_admin"
    and v: "inviteSchema is_email email role_in = Some (email, r)"
  shows "(length (filter (\<lambda>p. p_email p = Some email) (profiles db)) = 1
           \<longrightarrow> handleSubmit_invite is_email db u now new_id new_token email role_in
                 = (EmailAlreadyRegistered, db))
       \<and> (filter (\<lambda>p. p_email p = Some email) (profiles db) = []
            \<and> length (filter (\<lambda>i. inv_email i = email \<and> accepted_at i = None) (invitations db)) = 1
           \<longrightarrow> handleSubmit_invite is_email db u now new_id new_token email role_in
                 = (InvitationAlreadyPending, db))
       \<and> (filter (\<lambda>p. p_email p = Some email) (profiles db) = []
            \<and> filter (\<lambda>i. inv_email i = email \<and> accepted_at i = None) (invitations db) = []
            \<and> \<not> list_ex (\<lambda>j. inv_id j = new_id \<or> inv_token j = new_token) (invitations db)
           \<longrightarrow> handleSubmit_invite is_email db u now new_id new_token email role_in
                 = (InvitationCreated new_token,
                    db\<lparr>invitations := invitations db @
                         [\<lparr> inv_id = new_id, inv_email = email, inv_role = r,
                            inv_token = new_token, invited_by = Some u,
                            accepted_at = None, expires_at = now + seven_days,
                            inv_created_at = now \<rparr>]\<rparr>))"
proof -
  note vis = profiles_visible_to_super_admin [OF sa]
  have pol: "super_admins_can_manage_invitations db (Some u) i" for i
    using sa by (simp add: super_admins_can_manage_invitations_def)
  have 1: "handleSubmit_invite is_email db u now new_id new_token email role_in
                 = (EmailAlreadyRegistered, db)"
    if "length (filter (\<lambda>p. p_email p = Some email) (profiles db)) = 1"
    using that by (simp add: handleSubmit_invite_def v vis maybeSingle_length_one)
  have 2: "handleSubmit_invite is_email db u now new_id new_token email role_in
                 = (InvitationAlreadyPending, db)"
    if "filter (\<lambda>p. p_email p = Some email) (profiles db) = []"
      and "length (filter (\<lambda>i. inv_email i = email \<and> accepted_at i = None) (invitations db)) = 1"
    using that
    by (simp add: handleSubmit_invite_def v vis select_invitations_all maybeSingle_length_one)
  have 3: "handleSubmit_invite is_email db u now new_id new_token email role_in
                 = (InvitationCreated new_token,
                    db\<lparr>invitations := invitations db @
                         [\<lparr> inv_id = new_id, inv_email = email, inv_role = r,
                            inv_token = new_token, invited_by = Some u,
                            accepted_at = None, expires_at = now + seven_days,
                            inv_created_at = now \<rparr>]\<rparr>)"
    if "filter (\<lambda>p. p_email p = Some email) (profiles db) = []"
      and "filter (\<lambda>i. inv_email i = email \<and> accepted_at i = None) (invitations db) = []"
      and "\<not> list_ex (\<lambda>j. inv_id j = new_id \<or> inv_token j = new_token) (invitations db)"
    using that
    by (simp add: handleSubmit_invite_def v vis select_invitations_all insert_invitation_def pol)
  show ?thesis using 1 2 3 by blast
qed

text \<open>
  The claim as stated fails: bob's only invitation is unaccepted and expired after
  seven days; on the eighth day a super admin's new invitation for bob is refused as
  already pending.
\<close>

theorem C7_counterexample:
  "invitations invite_store = [bob_invitation]
   \<and> accepted_at bob_invitation = None
   \<and> expires_at bob_invitation < 8 * 86400
   \<and> has_role invite_store 3 super_admin
   \<and> handleSubmit_invite (\<lambda>s. True) invite_store 3 (8 * 86400) 41 ''t1ken'' ''bob@example.com'' ''reader''
       = (InvitationAlreadyPending, invite_store)"
  by (simp add: invite_store_def team_store_def bob_invitation_def seven_days_def has_role_def
      handleSubmit_invite_def inviteSchema_def users_can_view_profiles_based_on_role_def
      select_invitations_def anyone_can_view_invitation_def)

theorem C7_create_conflicts_witness:
  "has_role team_store 3 super_admin
   \<and> inviteSchema (\<lambda>s. True) ''a@example.com'' ''admin'' = Some (''a@example.com'', admin)
   \<and> handleSubmit_invite (\<lambda>s. True) team_store 3 0 40 ''t0ken'' ''a@example.com'' ''admin''
       = (EmailAlreadyRegistered, team_store)
   \<and> inviteSchema (\<lambda>s. True) ''bob@example.com'' ''editor'' = Some (''bob@example.com'', editor)
   \<and> handleSubmit_invite (\<lambda>s. True) team_store 3 0 40 ''t0ken'' ''bob@example.com'' ''editor''
       = (InvitationCreated ''t0ken'', invite_store)"
proof -
  have sa: "has_role team_store 3 super_admin"
    by (simp add: team_store_def has_role_def)
  have v1: "inviteSchema (\<lambda>s. True) ''a@example.com'' ''admin'' = Some (''a@example.com'', admin)"
    by (simp add: inviteSchema_def)
  have v2: "inviteSchema (\<lambda>s. True) ''bob@example.com'' ''editor'' = Some (''bob@example.com'', editor)"
    by (simp add: inviteSchema_def)
  have p1: "length (filter (\<lambda>p. p_email p = Some ''a@example.com'') (profiles team_store)) = 1"
    by (simp add: team_store_def)
  have p2: "filter (\<lambda>p. p_email p = Some ''bob@example.com'') (profiles team_store) = []"
    by (simp add: team_store_def)
  have i2: "filter (\<lambda>i. inv_email i = ''bob@example.com'' \<and> accepted_at i = None) (invitations team_store) = []"
    by (simp add: team_store_def)
  have f2: "\<not> list_ex (\<lambda>j. inv_id j = 40 \<or> inv_token j = ''t0ken'') (invitations team_store)"
    by (simp add: team_store_def)
  have a: "handleSubmit_invite (\<lambda>s. True) team_store 3 0 40 ''t0ken'' ''a@example.com'' ''admin''
       = (EmailAlreadyRegistered, team_store)"
    using C7_create_conflicts [OF sa v1, of 0 40 "''t0ken''"] p1 by blast
  have b: "handleSubmit_invite (\<lambda>s. True) team_store 3 0 40 ''t0ken'' ''bob@example.com'' ''editor''
       = (InvitationCreated ''t0ken'', invite_store)"
    using C7_create_conflicts [OF sa v2, of 0 40 "''t0ken''"] p2 i2 f2
    by (simp add: invite_store_def bob_invitation_def team_store_def)
  show ?thesis using sa v1 v2 a b by blast
qed

section \<open>Accepting invitations\<close>

text \<open>
  The outcome of a submission depends on the page's state, the form and the replies
  only: neither the time of the submission nor the store is consulted.
\<close>

lemma handleSubmit_accept_blind:
  "fst (handleSubmit_accept page_invitation form replies now db)
     = fst (handleSubmit_accept page_invitation form replies now' db')"
  by (simp add: handleSubmit_accept_def Let_def split: option.splits)

text \<open>
  C6. The page fetched bob's invitation on day one, when it was valid. Submitted on
  day eight, when \<open>fetchInvitation\<close> answers that the invitation has expired, the
  form still creates the account with the role editor and stamps the invitation.
  Submitted after another acceptance has stamped the invitation, it creates a second
  account.
\<close>

theorem C6_accept_without_revalidation:
  "fetchInvitation invite_store ''t0ken'' 86400 = Inr bob_invitation
   \<and> fetchInvitation invite_store ''t0ken'' (8 * 86400) = Inl InvitationExpired
   \<and> handleSubmit_accept (Some bob_invitation) bob_form all_fine (8 * 86400) invite_store
       = (AccountCreated,
          invite_store\<lparr>user_roles := user_roles invite_store @ [\<lparr> ur_user_id = 5, ur_role = editor \<rparr>],
                       invitations := [bob_invitation\<lparr>accepted_at := Some (8 * 86400)\<rparr>]\<rparr>)
   \<and> fetchInvitation
         (invite_store\<lparr>invitations := [bob_invitation\<lparr>accepted_at := Some (2 * 86400)\<rparr>]\<rparr>)
         ''t0ken'' (3 * 86400) = Inl InvitationAlreadyUsed
   \<and> fst (handleSubmit_accept (Some bob_invitation) bob_form
             \<lparr> signUp_user = Some 6, roleError = False, stamp_applies = True \<rparr> (3 * 86400)
             (invite_store\<lparr>invitations := [bob_invitation\<lparr>accepted_at := Some (2 * 86400)\<rparr>]\<rparr>))
       = AccountCreated"
  by (simp add: fetchInvitation_def select_invitations_def anyone_can_view_invitation_def
      invite_store_def bob_invitation_def seven_days_def handleSubmit_accept_def signupSchema_def
      bob_form_def all_fine_def Let_def)

section \<open>Roles of invitations\<close>

lemma invite_role_range:
  "invite_role s = Some r \<Longrightarrow> r = admin \<or> r = editor \<or> r = reader"
  by (auto split: if_splits)

lemma handleSubmit_invite_invitations:
  assumes "handleSubmit_invite is_email db u now new_id new_token email_in role_in = (out, db')"
  shows "invitations db' = invitations db
       \<or> (\<exists>i. invitations db' = invitations db @ [i]
               \<and> (inv_role i = admin \<or> inv_role i = editor \<or> inv_role i = reader))"
proof (cases "inviteSchema is_email email_in role_in")
  case None
  with assms show ?thesis by (simp add: handleSubmit_invite_def)
next
  case (Some er)
  obtain e r where er: "er = (e, r)" by (cases er)
  from Some er have "invite_role role_in = Some r"
    by (auto simp: inviteSchema_def split: if_splits)
  then have rr: "r = admin \<or> r = editor \<or> r = reader"
    by (rule invite_role_range)
  from assms Some er rr show ?thesis
    by (auto simp: handleSubmit_invite_def insert_invitation_def
        split: option.splits sum.splits if_splits)
qed

lemma handleDeleteInvitation_invitations:
  "set (invitations (handleDeleteInvitation db u i)) \<subseteq> set (invitations db)"
  by (auto simp: handleDeleteInvitation_def delete_invitation_def)

lemma handleSubmit_accept_invitations:
  assumes "handleSubmit_accept page_invitation form replies now db = (out, db')"
  shows "inv_role ` set (invitations db') \<subseteq> inv_role ` set (invitations db)"
  using assms
  by (auto simp: handleSubmit_accept_def Let_def split: option.splits if_splits)

lemma reachable_invitation_roles:
  assumes "reachable is_email db"
  shows "\<forall>i \<in> set (invitations db). inv_role i = admin \<or> inv_role i = editor \<or> inv_role i = reader"
  using assms
proof (induction rule: reachable.induct)
  case (init db)
  then show ?case by simp
next
  case (other db db')
  then show ?case by simp
next
  case (create db auth_uid now new_id new_token email_in role_in out db')
  from handleSubmit_invite_invitations [OF create.hyps(2)]
  consider "invitations db' = invitations db"
    | i where "invitations db' = invitations db @ [i]"
        "inv_role i = admin \<or> inv_role i = editor \<or> inv_role i = reader"
    by blast
  then show ?case
  proof cases
    case 1
    with create.IH show ?thesis by simp
  next
    case 2
    with create.IH show ?thesis by simp
  qed
next
  case (revoke db auth_uid invitation_id)
  show ?case
  proof
    fix i assume "i \<in> set (invitations (handleDeleteInvitation db auth_uid invitation_id))"
    then have "i \<in> set (invitations db)"
      using handleDeleteInvitation_invitations [of db auth_uid invitation_id] by (rule subsetD [rotated])
    with revoke.IH show "inv_role i = admin \<or> inv_role i = editor \<or> inv_role i = reader"
      by (rule bspec)
  qed
next
  case (accept db0 db token t0 invit form replies now out db')
  show ?case
  proof
    fix i assume "i \<in> set (invitations db')"
    then have "inv_role i \<in> inv_role ` set (invitations db')" by (rule imageI)
    with handleSubmit_accept_invitations [OF accept.hyps(4)]
    have "inv_role i \<in> inv_role ` set (invitations db)" by (rule subsetD)
    then obtain j where j: "j \<in> set (invitations db)" "inv_role i = inv_role j" by (rule imageE)
    from accept.IH(2) j(1)
    have "inv_role j = admin \<or> inv_role j = editor \<or> inv_role j = reader" by (rule bspec)
    with j(2) show "inv_role i = admin \<or> inv_role i = editor \<or> inv_role i = reader" by simp
  qed
qed

lemma fetchInvitation_member:
  "fetchInvitation db token t0 = Inr invit \<Longrightarrow> invit \<in> set (invitations db)"
proof -
  assume a: "fetchInvitation db token t0 = Inr invit"
  then have "maybeSingle (filter (\<lambda>i. inv_token i = token) (invitations db)) = Some invit"
    by (auto simp: fetchInvitation_def select_invitations_all split: option.splits if_splits)
  then have "filter (\<lambda>i. inv_token i = token) (invitations db) = [invit]"
    by (cases "filter (\<lambda>i. inv_token i = token) (invitations db)" rule: maybeSingle.cases) simp_all
  then have "invit \<in> set (filter (\<lambda>i. inv_token i = token) (invitations db))" by simp
  then show ?thesis by simp
qed

lemma handleSubmit_accept_roles:
  "user_roles (snd (handleSubmit_accept (Some invit) form replies now db)) = user_roles db
   \<or> (\<exists>uid. user_roles (snd (handleSubmit_accept (Some invit) form replies now db))
              = user_roles db @ [\<lparr> ur_user_id = uid, ur_role = inv_role invit \<rparr>])"
  by (auto simp: handleSubmit_accept_def Let_def split: option.splits)

text \<open>
  C8. In every state the pages can reach from a store without invitations, each
  invitation's role is admin, editor or reader. So an invitation the acceptance page
  fetches from such a state never has the role super_admin, and a submission with it
  either leaves \<open>user_roles\<close> as it is or appends one row with the invitation's role.
\<close>

theorem C8_no_super_admin_invitation:
  assumes "reachable is_email db"
  shows "(\<forall>i \<in> set (invitations db). inv_role i = admin \<or> inv_role i = editor \<or> inv_role i = reader)
       \<and> (\<forall>token t0 invit form replies now db1.
             fetchInvitation db token t0 = Inr invit \<longrightarrow>
               inv_role invit \<noteq> super_admin
               \<and> (user_roles (snd (handleSubmit_accept (Some invit) form replies now db1))
                     = user_roles db1
                  \<or> (\<exists>uid. user_roles (snd (handleSubmit_accept (Some invit) form replies now db1))
                        = user_roles db1 @ [\<lparr> ur_user_id = uid, ur_role = inv_role invit \<rparr>])))"
proof -
  have 1: "\<forall>i \<in> set (invitations db). inv_role i = admin \<or> inv_role i = editor \<or> inv_role i = reader"
    using assms by (rule reachable_invitation_roles)
  have 2: "inv_role invit \<noteq> super_admin"
    if "fetchInvitation db token t0 = Inr invit" for token t0 invit
  proof -
    from that have "invit \<in> set (invitations db)" by (rule fetchInvitation_member)
    with 1 have "inv_role invit = admin \<or> inv_role invit = editor \<or> inv_role invit = reader"
      by (rule bspec)
    then show ?thesis by auto
  qed
  show ?thesis
    using 1 2 handleSubmit_accept_roles by blast
qed

theorem C8_no_super_admin_invitation_witness:
  "reachable (\<lambda>s. True) invite_store
   \<and> list_all (\<lambda>i. inv_role i \<noteq> super_admin) (invitations invite_store)
   \<and> fetchInvitation invite_store ''t0ken'' 86400 = Inr bob_invitation
   \<and> user_roles (snd (handleSubmit_accept (Some bob_invitation) bob_form all_fine 86400 invite_store))
       = user_roles invite_store @ [\<lparr> ur_user_id = 5, ur_role = editor \<rparr>]"
proof -
  have i: "reachable (\<lambda>s. True) team_store"
    by (rule reachable.init) (simp add: team_store_def)
  have c: "handleSubmit_invite (\<lambda>s. True) team_store 3 0 40 ''t0ken'' ''bob@example.com'' ''editor''
       = (InvitationCreated ''t0ken'', invite_store)"
    by (simp add: invite_store_def bob_invitation_def team_store_def handleSubmit_invite_def
        inviteSchema_def users_can_view_profiles_based_on_role_def select_invitations_def
        anyone_can_view_invitation_def insert_invitation_def
        super_admins_can_manage_invitations_def has_role_def)
  have r: "reachable (\<lambda>s. True) invite_store"
    using i c by (rule reachable.create)
  have f: "fetchInvitation invite_store ''t0ken'' 86400 = Inr bob_invitation"
    by (simp add: fetchInvitation_def select_invitations_def anyone_can_view_invitation_def
        invite_store_def bob_invitation_def seven_days_def)
  have a: "user_roles (snd (handleSubmit_accept (Some bob_invitation) bob_form all_fine 86400 invite_store))
       = user_roles invite_store @ [\<lparr> ur_user_id = 5, ur_role = editor \<rparr>]"
    by (simp add: handleSubmit_accept_def signupSchema_def bob_form_def all_fine_def Let_def
        bob_invitation_def)
  have l: "list_all (\<lambda>i. inv_role i \<noteq> super_admin) (invitations invite_store)"
    using C8_no_super_admin_invitation [OF r] by (auto simp: list_all_iff)
  show ?thesis using r l f a by blast
qed

end
